theory Spec2Isabelle
  imports Main
begin

section \<open>The data of the myFlix API (src/js/index.js)\<close>

text \<open>
  The handlers of \<^verbatim>\<open>index.js\<close> work on two Mongoose collections, \<^verbatim>\<open>Movies\<close> and
  \<^verbatim>\<open>Users\<close>. A collection is the list of its documents in insertion order; a query
  such as \<^verbatim>\<open>findOne\<close> answers with the first document that matches.

  A movie is looked up through \<^verbatim>\<open>Movies.findById\<close>, whose argument Mongoose casts to an
  ObjectId. The cast takes a string of 24 hexadecimal digits, read without regard to case,
  and also any string of 12 characters, whose character codes are then the 12 bytes of the
  identifier; every other string is a cast error. An identifier is kept here as its 24
  lower-case hexadecimal digits, so the two ways of writing one identifier are equal.
\<close>

datatype objectId = ObjectId string

definition isHexDigit :: "char \<Rightarrow> bool" where
  "isHexDigit c =
     (let n = (of_char c :: nat)
      in (48 \<le> n \<and> n \<le> 57) \<or> (65 \<le> n \<and> n \<le> 70) \<or> (97 \<le> n \<and> n \<le> 102))"

definition toLowerCase :: "char \<Rightarrow> char" where
  "toLowerCase c =
     (case map_of (zip ''ABCDEFGHIJKLMNOPQRSTUVWXYZ'' ''abcdefghijklmnopqrstuvwxyz'') c of
        Some l \<Rightarrow> l
      | None \<Rightarrow> c)"

definition hexDigit :: "nat \<Rightarrow> char" where
  "hexDigit n = ''0123456789abcdef'' ! (n mod 16)"

definition toHexString :: "string \<Rightarrow> string" where
  "toHexString s =
     concat (map (\<lambda>c. [hexDigit ((of_char c :: nat) div 16), hexDigit (of_char c :: nat)]) s)"

definition castObjectId :: "string \<Rightarrow> objectId option" where
  "castObjectId s =
     (if length s = 24 \<and> list_all isHexDigit s then Some (ObjectId (map toLowerCase s))
      else if length s = 12 then Some (ObjectId (toHexString s))
      else None)"

record movie =
  movie_id :: objectId
  Title :: string
  Description :: string

text \<open>
  A user document. \<^verbatim>\<open>Username\<close>, \<^verbatim>\<open>Email\<close> and \<^verbatim>\<open>Birthday\<close> are written from the
  request body as they are found there, so each may be missing (\<open>None\<close>: the body had no
  such field, and the document holds \<^verbatim>\<open>null\<close> or nothing); \<^verbatim>\<open>Password\<close> is always what
  \<^verbatim>\<open>Users.hashPassword\<close> returned.
\<close>

record user =
  Username :: "string option"
  Password :: string
  Email :: "string option"
  Birthday :: "string option"
  FavoriteMovies :: "objectId list"

record store =
  Movies :: "movie list"
  Users :: "user list"

text \<open>
  A request, as far as the user routes read it: the fields of the JSON body, the headers
  (their names in lower case) and the query string. The values are strings. The path
  parameters are arguments of the handlers. \<^verbatim>\<open>req.cookies\<close> is never set, no cookie parser
  being installed.
\<close>

record request =
  body :: "string \<rightharpoonup> string"
  headers :: "string \<rightharpoonup> string"
  query :: "string \<rightharpoonup> string"

datatype location = Body | Cookies | Headers | Params | Query

text \<open>
  An entry of \<^verbatim>\<open>errors.array()\<close>: the value that failed (\<open>None\<close> for \<^verbatim>\<open>undefined\<close>), the
  message, the field and the location.
\<close>

type_synonym validationError = "string option \<times> string \<times> string \<times> location"

text \<open>
  A response is the status code given to \<^verbatim>\<open>res.status\<close> and what \<^verbatim>\<open>send\<close> or
  \<^verbatim>\<open>json\<close> is called with.
\<close>

datatype payload =
    Text string
  | UserDoc user
  | UserDocs "user list"
  | MovieDocs "movie list"
  | ValidationErrors "validationError list"

datatype response = Response (status: nat) (payload: payload)

section \<open>The Mongoose operations the handlers call\<close>

datatype storeError = CastError

definition findById :: "string \<Rightarrow> movie list \<Rightarrow> storeError + movie option" where
  \<comment> \<open>rejects when the argument is no ObjectId, resolves with \<^verbatim>\<open>null\<close> when no document has it\<close>
  "findById ident ms =
     (case castObjectId ident of
        None \<Rightarrow> Inl CastError
      | Some oid \<Rightarrow> Inr (find (\<lambda>m. movie_id m = oid) ms))"

definition findOne :: "string option \<Rightarrow> user list \<Rightarrow> user option" where
  \<comment> \<open>\<^verbatim>\<open>Users.findOne({ Username: name })\<close>; a name that is \<^verbatim>\<open>undefined\<close> is sent as
      \<^verbatim>\<open>null\<close> and matches the documents without a username\<close>
  "findOne name us = find (\<lambda>u. Username u = name) us"

fun findOneAndUpdate :: "string \<Rightarrow> (user \<Rightarrow> user) \<Rightarrow> user list \<Rightarrow> user list \<times> user option" where
  "findOneAndUpdate name upd [] = ([], None)"
| "findOneAndUpdate name upd (u # us) =
     (if Username u = Some name then (upd u # us, Some (upd u))
      else (case findOneAndUpdate name upd us of (us', r) \<Rightarrow> (u # us', r)))"

definition addToSet :: "'a \<Rightarrow> 'a list \<Rightarrow> 'a list" where
  "addToSet x xs = (if x \<in> set xs then xs else xs @ [x])"

definition pull :: "'a \<Rightarrow> 'a list \<Rightarrow> 'a list" where
  "pull x xs = filter (\<lambda>y. y \<noteq> x) xs"

definition create :: "user \<Rightarrow> user list \<Rightarrow> user list" where
  "create doc us = us @ [doc]"

section \<open>Middleware\<close>

text \<open>
  \<^verbatim>\<open>passport.authenticate('jwt', { session: false })\<close> stands before every protected
  handler. Its strategy is set up in \<^verbatim>\<open>passport.js\<close>; here its verdict on the request is
  the Boolean \<open>jwtOk\<close>, and a request it turns down is answered with 401 and the handler
  is not run.
\<close>

definition passport_authenticate :: "bool \<Rightarrow> (store \<Rightarrow> store \<times> response) \<Rightarrow> store \<Rightarrow> store \<times> response" where
  "passport_authenticate jwtOk handler s =
     (if jwtOk then handler s else (s, Response 401 (Text ''Unauthorized'')))"

text \<open>
  \<^verbatim>\<open>check(field, message)\<close> of express-validator looks for the field in the body, the
  cookies, the headers, the path parameters and the query, in this order. Every location
  that has a value for the field gives an instance, and each instance is validated; when no
  location has one, the first instance, the body's with the value \<^verbatim>\<open>undefined\<close>, is
  validated alone. A validator runs on the value as a string, \<^verbatim>\<open>undefined\<close> being the
  empty string.
\<close>

definition fieldValue :: "request \<Rightarrow> (string \<rightharpoonup> string) \<Rightarrow> location \<Rightarrow> string \<Rightarrow> string option" where
  "fieldValue req params loc field =
     (case loc of
        Body \<Rightarrow> body req field
      | Cookies \<Rightarrow> None
      | Headers \<Rightarrow> headers req (map toLowerCase field)
      | Params \<Rightarrow> params field
      | Query \<Rightarrow> query req field)"

definition selectFields ::
  "request \<Rightarrow> (string \<rightharpoonup> string) \<Rightarrow> string \<Rightarrow> (location \<times> string option) list" where
  "selectFields req params field =
     (let instances = map (\<lambda>loc. (loc, fieldValue req params loc field))
                        [Body, Cookies, Headers, Params, Query];
          withValue = filter (\<lambda>i. snd i \<noteq> None) instances
      in if withValue \<noteq> [] then withValue else [hd instances])"

definition toString :: "string option \<Rightarrow> string" where
  "toString v = (case v of None \<Rightarrow> [] | Some s \<Rightarrow> s)"

definition check ::
  "request \<Rightarrow> (string \<rightharpoonup> string) \<Rightarrow> string \<Rightarrow> string \<Rightarrow> (string \<Rightarrow> bool) \<Rightarrow> validationError list" where
  "check req params field message validator =
     map (\<lambda>i. (snd i, message, field, fst i))
       (filter (\<lambda>i. \<not> validator (toString (snd i))) (selectFields req params field))"

definition isAlnumChar :: "char \<Rightarrow> bool" where
  "isAlnumChar c =
     (let n = (of_char c :: nat)
      in (48 \<le> n \<and> n \<le> 57) \<or> (65 \<le> n \<and> n \<le> 90) \<or> (97 \<le> n \<and> n \<le> 122))"

definition isAlphanumeric :: "string \<Rightarrow> bool" where
  \<comment> \<open>validator.js, locale en-US: the string matches \<^verbatim>\<open>/^[0-9A-Z]+$/i\<close>\<close>
  "isAlphanumeric s = (s \<noteq> [] \<and> list_all isAlnumChar s)"

text \<open>
  The four checks of the two user routes, in the order they are listed; each failing
  instance adds an entry to the errors. \<^verbatim>\<open>isEmail\<close> is validator.js's own test of an
  address and is taken as a parameter.
\<close>

definition validationResult ::
  "(string \<Rightarrow> bool) \<Rightarrow> request \<Rightarrow> (string \<rightharpoonup> string) \<Rightarrow> validationError list" where
  "validationResult isEmail req params =
     check req params ''Username'' ''Username must be at least 5 characters''
       (\<lambda>v. 5 \<le> length v) @
     check req params ''Username''
       ''Username contains non alphanumeric characters - not allowed'' isAlphanumeric @
     check req params ''Password'' ''Password is required'' (\<lambda>v. \<not> (v = [])) @
     check req params ''Email'' ''Email does not appear to be valid'' isEmail"

section \<open>The handlers\<close>

text \<open>\<^verbatim>\<open>GET /users\<close>: an array, also the empty one, is truthy, so the first branch is dead.\<close>

definition get_users :: "bool \<Rightarrow> store \<Rightarrow> store \<times> response" where
  "get_users jwtOk =
     passport_authenticate jwtOk (\<lambda>s. (s, Response 200 (UserDocs (Users s))))"

text \<open>
  The handlers of the user routes read the body alone, whatever location made the checks
  pass. \<^verbatim>\<open>Users.hashPassword\<close> is defined in \<^verbatim>\<open>models.js\<close> and is taken as a parameter: it
  is given the password of the body, \<open>None\<close> for \<^verbatim>\<open>undefined\<close>, and returns the digest, or
  \<open>None\<close> when it throws; the exception leaves the handler before any query and the
  request is answered with 500. In a string, \<^verbatim>\<open>undefined\<close> reads \<^verbatim>\<open>undefined\<close>.
\<close>

definition jsString :: "string option \<Rightarrow> string" where
  "jsString v = (case v of None \<Rightarrow> ''undefined'' | Some s \<Rightarrow> s)"

text \<open>\<^verbatim>\<open>POST /users\<close>: no path parameter. A new document starts with no favourites.\<close>

definition post_users ::
  "(string \<Rightarrow> bool) \<Rightarrow> (string option \<Rightarrow> string option) \<Rightarrow> request \<Rightarrow> store \<Rightarrow> store \<times> response" where
  "post_users isEmail hashPassword req s =
     (let errors = validationResult isEmail req Map.empty in
      if errors \<noteq> [] then (s, Response 422 (ValidationErrors errors))
      else
        (case hashPassword (body req ''Password'') of
           None \<Rightarrow> (s, Response 500 (Text ''Internal Server Error''))
         | Some hashedPassword \<Rightarrow>
             (case findOne (body req ''Username'') (Users s) of
                Some u \<Rightarrow>
                  (s, Response 409 (Text (jsString (body req ''Username'') @ '' already exists'')))
              | None \<Rightarrow>
                  let doc = \<lparr>Username = body req ''Username'', Password = hashedPassword,
                             Email = body req ''Email'', Birthday = body req ''Birthday'',
                             FavoriteMovies = []\<rparr>
                  in (s\<lparr>Users := create doc (Users s)\<rparr>, Response 201 (UserDoc doc)))))"

text \<open>
  \<^verbatim>\<open>PUT /users/:Username\<close>: the path parameter is one of the instances of the field
  \<^verbatim>\<open>Username\<close> that the checks validate. A field that \<^verbatim>\<open>$set\<close> is given as \<^verbatim>\<open>undefined\<close>
  is written as \<^verbatim>\<open>null\<close>.
\<close>

definition put_users ::
  "bool \<Rightarrow> (string \<Rightarrow> bool) \<Rightarrow> (string option \<Rightarrow> string option) \<Rightarrow> string \<Rightarrow> request \<Rightarrow>
   store \<Rightarrow> store \<times> response" where
  "put_users jwtOk isEmail hashPassword pUsername req =
     passport_authenticate jwtOk (\<lambda>s.
       let errors = validationResult isEmail req [''Username'' \<mapsto> pUsername] in
       if errors \<noteq> [] then (s, Response 422 (ValidationErrors errors))
       else
         (case hashPassword (body req ''Password'') of
            None \<Rightarrow> (s, Response 500 (Text ''Internal Server Error''))
          | Some hashedPassword \<Rightarrow>
              (case findOne (body req ''Username'') (Users s) of
                 Some u \<Rightarrow>
                   (s, Response 409 (Text (jsString (body req ''Username'') @ '' already exists'')))
               | None \<Rightarrow>
                   (case findOneAndUpdate pUsername
                           (\<lambda>u. u\<lparr>Username := body req ''Username'', Password := hashedPassword,
                                  Email := body req ''Email'',
                                  Birthday := body req ''Birthday''\<rparr>) (Users s) of
                      (us', None) \<Rightarrow>
                        (s, Response 404 (Text (''User '' @ pUsername @ '' was not found'')))
                    | (us', Some updatedUser) \<Rightarrow>
                        (s\<lparr>Users := us'\<rparr>, Response 200 (UserDoc updatedUser))))))"

text \<open>
  \<^verbatim>\<open>POST /users/:Username/movies/:MovieID\<close>. The callback of \<^verbatim>\<open>then\<close> takes no argument:
  what \<^verbatim>\<open>findById\<close> resolved with is not looked at. \<^verbatim>\<open>req.params.MovieID || ''\<close> is the
  parameter itself, the empty string being the only falsy string; \<^verbatim>\<open>$addToSet\<close> casts it
  to the identifier that \<^verbatim>\<open>findById\<close> has just cast it to.
\<close>

definition post_users_movies :: "bool \<Rightarrow> string \<Rightarrow> string \<Rightarrow> store \<Rightarrow> store \<times> response" where
  "post_users_movies jwtOk pUsername pMovieID =
     passport_authenticate jwtOk (\<lambda>s.
       case findById pMovieID (Movies s) of
         Inl err \<Rightarrow> (s, Response 404 (Text (''Movie id '' @ pMovieID @ '' not found'')))
       | Inr _ \<Rightarrow>
           (case castObjectId (if pMovieID = [] then [] else pMovieID) of
              None \<Rightarrow> (s, Response 500 (Text ''Error: CastError''))
            | Some oid \<Rightarrow>
                (case findOneAndUpdate pUsername
                        (\<lambda>u. u\<lparr>FavoriteMovies := addToSet oid (FavoriteMovies u)\<rparr>) (Users s) of
                   (us', None) \<Rightarrow>
                     (s, Response 404 (Text (''User '' @ pUsername @ '' was not found'')))
                 | (us', Some u) \<Rightarrow>
                     (s\<lparr>Users := us'\<rparr>,
                      Response 201 (Text (''Movie ID '' @ pMovieID @
                        '' was added to favorite movies for user '' @ pUsername))))))"

text \<open>\<^verbatim>\<open>DELETE /users/:Username/movies/:MovieID\<close>, the same protocol with \<^verbatim>\<open>$pull\<close>.\<close>

definition delete_users_movies :: "bool \<Rightarrow> string \<Rightarrow> string \<Rightarrow> store \<Rightarrow> store \<times> response" where
  "delete_users_movies jwtOk pUsername pMovieID =
     passport_authenticate jwtOk (\<lambda>s.
       case findById pMovieID (Movies s) of
         Inl err \<Rightarrow> (s, Response 404 (Text (''Movie id '' @ pMovieID @ '' not found'')))
       | Inr _ \<Rightarrow>
           (case castObjectId (if pMovieID = [] then [] else pMovieID) of
              None \<Rightarrow> (s, Response 500 (Text ''Error: CastError''))
            | Some oid \<Rightarrow>
                (case findOneAndUpdate pUsername
                        (\<lambda>u. u\<lparr>FavoriteMovies := pull oid (FavoriteMovies u)\<rparr>) (Users s) of
                   (us', None) \<Rightarrow>
                     (s, Response 404 (Text (''User '' @ pUsername @ '' was not found'')))
                 | (us', Some u) \<Rightarrow>
                     (s\<lparr>Users := us'\<rparr>,
                      Response 200 (Text (''Movie ID '' @ pMovieID @
                        '' was deleted from user '' @ pUsername))))))"

text \<open>The favourites of the user a request names: those of the document \<^verbatim>\<open>findOne\<close> finds.\<close>

definition favoritesOf :: "string \<Rightarrow> store \<Rightarrow> objectId list option" where
  "favoritesOf name s = map_option FavoriteMovies (findOne (Some name) (Users s))"

section \<open>Access tokens\<close>

text \<open>
  The Login Service and the Token Verifier live in \<^verbatim>\<open>auth.js\<close> and \<^verbatim>\<open>passport.js\<close>,
  which are not among the sources; the definitions of this section follow section 4.2 and
  4.3 of the specification. Time is a count of seconds. The signing function, with its
  secret, and the Password Hasher's \<^verbatim>\<open>verify\<close> are parameters.
\<close>

record claims =
  subject :: string
  issuedAt :: nat
  expiresAt :: nat

datatype rawToken = Unparseable | Signed claims string

datatype authError = InvalidCredentials | MalformedToken | TokenExpired

text \<open>
  Modelled from the spec: token issuance of the Login Service (\<^verbatim>\<open>auth.js\<close>, missing): a
  signed token with the username as subject and an expiry fixed at issuance.
\<close>

definition issueToken :: "(claims \<Rightarrow> string) \<Rightarrow> nat \<Rightarrow> nat \<Rightarrow> string \<Rightarrow> rawToken" where
  "issueToken sign ttl now username =
     (let c = \<lparr>subject = username, issuedAt = now, expiresAt = now + ttl\<rparr>
      in Signed c (sign c))"

text \<open>
  Modelled from the spec: \<^verbatim>\<open>authenticate(username, plaintextPassword)\<close> of the Login
  Service (\<^verbatim>\<open>auth.js\<close>, missing): the user is looked up by exact username, the password
  verified against the stored digest, and both failures are \<^verbatim>\<open>InvalidCredentials\<close>.
\<close>

definition authenticate ::
  "(string \<Rightarrow> string \<Rightarrow> bool) \<Rightarrow> (claims \<Rightarrow> string) \<Rightarrow> nat \<Rightarrow> nat \<Rightarrow> user list \<Rightarrow>
   string \<Rightarrow> string \<Rightarrow> authError + rawToken" where
  "authenticate verify sign ttl now us username plaintextPassword =
     (case findOne (Some username) us of
        None \<Rightarrow> Inl InvalidCredentials
      | Some u \<Rightarrow>
          if verify plaintextPassword (Password u)
          then Inr (issueToken sign ttl now username)
          else Inl InvalidCredentials)"

text \<open>
  Modelled from the spec: \<^verbatim>\<open>authorize(rawToken)\<close> of the Token Verifier
  (\<^verbatim>\<open>passport.js\<close>, missing): \<^verbatim>\<open>MalformedToken\<close> when the structure or the signature is
  invalid, \<^verbatim>\<open>TokenExpired\<close> when the current time has reached the expiry, the subject
  otherwise, with no look at the Credential Store.
\<close>

definition authorize :: "(claims \<Rightarrow> string) \<Rightarrow> nat \<Rightarrow> rawToken \<Rightarrow> authError + string" where
  "authorize sign now raw =
     (case raw of
        Unparseable \<Rightarrow> Inl MalformedToken
      | Signed c sg \<Rightarrow>
          if sg \<noteq> sign c then Inl MalformedToken
          else if expiresAt c \<le> now then Inl TokenExpired
          else Inr (subject c))"

section \<open>Sample data\<close>

text \<open>
  Stand-ins for the library functions, a few documents and requests; the examples below
  are evaluated on them. The sample hasher throws on \<^verbatim>\<open>undefined\<close>, as bcrypt does.
\<close>

definition sampleIsEmail :: "string \<Rightarrow> bool" where
  "sampleIsEmail e = (CHR ''@'' \<in> set e)"

definition sampleHash :: "string option \<Rightarrow> string option" where
  "sampleHash v = (case v of None \<Rightarrow> None | Some p \<Rightarrow> Some (''$2b$10$'' @ rev p))"

definition sampleVerify :: "string \<Rightarrow> string \<Rightarrow> bool" where
  "sampleVerify p d = (sampleHash (Some p) = Some d)"

definition sampleSign :: "claims \<Rightarrow> string" where
  "sampleSign c = ''hs256:'' @ subject c"

definition alice :: user where
  "alice = \<lparr>Username = Some ''alice01'', Password = ''$2b$10$wp'', Email = Some ''a@b.com'',
            Birthday = None, FavoriteMovies = []\<rparr>"

definition silence :: movie where
  "silence = \<lparr>movie_id = ObjectId ''5c3bd189515a081b363cb7e4'',
              Title = ''Silence of the Lambs'', Description = ''A young FBI cadet''\<rparr>"

definition aliceOnly :: store where
  "aliceOnly = \<lparr>Movies = [], Users = [alice]\<rparr>"

definition aliceAndSilence :: store where
  "aliceAndSilence = \<lparr>Movies = [silence], Users = [alice]\<rparr>"

definition aliceFan :: store where
  "aliceFan = \<lparr>Movies = [silence],
                Users = [alice\<lparr>FavoriteMovies := [ObjectId ''5c3bd189515a081b363cb7e4'']\<rparr>]\<rparr>"

definition jsonBody :: "(string \<rightharpoonup> string) \<Rightarrow> request" where
  "jsonBody b = \<lparr>body = b, headers = Map.empty, query = Map.empty\<rparr>"

definition aliceReq :: request where
  "aliceReq = jsonBody [''Username'' \<mapsto> ''alice01'', ''Password'' \<mapsto> ''pw'',
                        ''Email'' \<mapsto> ''a@b.com'']"

definition bobReq :: request where
  "bobReq = jsonBody [''Username'' \<mapsto> ''bobby02'', ''Password'' \<mapsto> ''secret'',
                      ''Email'' \<mapsto> ''bob@b.com'', ''Birthday'' \<mapsto> ''1990-01-01'']"

definition aliceNewPassword :: request where
  "aliceNewPassword = jsonBody [''Username'' \<mapsto> ''alice01'', ''Password'' \<mapsto> ''newpw'',
                                ''Email'' \<mapsto> ''a@b.com'']"

definition noUsername :: request where
  "noUsername = jsonBody [''Password'' \<mapsto> ''newpw'', ''Email'' \<mapsto> ''a@b.com'']"

definition withUsername :: "string \<Rightarrow> request" where
  "withUsername name = jsonBody [''Username'' \<mapsto> name, ''Password'' \<mapsto> ''pw'',
                                 ''Email'' \<mapsto> ''a@b.com'']"

section \<open>Facts about the store operations and the checks\<close>

lemmas sample_defs =
  sampleIsEmail_def sampleHash_def sampleVerify_def sampleSign_def alice_def silence_def
  aliceOnly_def aliceAndSilence_def aliceFan_def jsonBody_def aliceReq_def bobReq_def
  aliceNewPassword_def noUsername_def withUsername_def

lemmas cast_defs = castObjectId_def isHexDigit_def toLowerCase_def toHexString_def hexDigit_def

lemmas validation_defs =
  validationResult_def check_def selectFields_def fieldValue_def toString_def toLowerCase_def
  isAlphanumeric_def isAlnumChar_def

lemma findOne_None_iff: "(findOne name us = None) = (\<forall>u\<in>set us. Username u \<noteq> name)"
  by (auto simp: findOne_def find_None_iff)

lemma findOne_Some_name: "findOne name us = Some u \<Longrightarrow> Username u = name \<and> u \<in> set us"
  by (auto simp: findOne_def find_Some_iff)

lemma findOneAndUpdate_None:
  "findOne (Some name) us = None \<Longrightarrow> findOneAndUpdate name upd us = (us, None)"
  by (induction us) (auto simp: findOne_def)

lemma findOneAndUpdate_Some:
  "findOne (Some name) us = Some u \<Longrightarrow> snd (findOneAndUpdate name upd us) = Some (upd u)"
  by (induction us) (auto simp: findOne_def split: prod.splits)

lemma findOneAndUpdate_same:
  "findOne (Some name) us = Some u \<Longrightarrow> upd u = u \<Longrightarrow>
   findOneAndUpdate name upd us = (us, Some u)"
  by (induction us) (auto simp: findOne_def split: prod.splits)

lemma findOne_findOneAndUpdate:
  "findOne (Some name) us = Some u \<Longrightarrow> Username (upd u) = Some name \<Longrightarrow>
   findOne (Some name) (fst (findOneAndUpdate name upd us)) = Some (upd u)"
  by (induction us) (auto simp: findOne_def split: prod.splits)

lemma findOneAndUpdate_split:
  "findOneAndUpdate name upd us = (us', Some r) \<Longrightarrow>
   \<exists>us1 u us2. us = us1 @ u # us2 \<and> (\<forall>v\<in>set us1. Username v \<noteq> Some name) \<and>
     Username u = Some name \<and> us' = us1 @ upd u # us2 \<and> r = upd u"
proof (induction us arbitrary: us')
  case Nil
  then show ?case by simp
next
  case (Cons a us)
  show ?case
  proof (cases "Username a = Some name")
    case True
    with Cons.prems have "us' = upd a # us" "r = upd a" by auto
    with True have "a # us = [] @ a # us \<and> (\<forall>v\<in>set []. Username v \<noteq> Some name) \<and>
       Username a = Some name \<and> us' = [] @ upd a # us \<and> r = upd a" by simp
    then show ?thesis by blast
  next
    case False
    with Cons.prems obtain ust where
      t: "findOneAndUpdate name upd us = (ust, Some r)" "us' = a # ust"
      by (auto split: prod.splits)
    from Cons.IH [OF t(1)] obtain us1 u us2 where
      "us = us1 @ u # us2" "\<forall>v\<in>set us1. Username v \<noteq> Some name" "Username u = Some name"
      "ust = us1 @ upd u # us2" "r = upd u" by blast
    with False t(2) have "a # us = (a # us1) @ u # us2 \<and>
       (\<forall>v\<in>set (a # us1). Username v \<noteq> Some name) \<and>
       Username u = Some name \<and> us' = (a # us1) @ upd u # us2 \<and> r = upd u" by simp
    then show ?thesis by blast
  qed
qed

lemma distinct_addToSet: "distinct xs \<Longrightarrow> distinct (addToSet x xs)"
  by (simp add: addToSet_def)

lemma pull_addToSet: "pull x (addToSet x xs) = pull x xs"
  by (simp add: pull_def addToSet_def)

lemma pull_absent: "x \<notin> set xs \<Longrightarrow> pull x xs = xs"
  by (induction xs) (auto simp: pull_def)

lemma not_in_pull: "x \<notin> set (pull x xs)"
  by (simp add: pull_def)

lemma check_Nil:
  "(check req params field message validator = []) =
   (\<forall>i\<in>set (selectFields req params field). validator (toString (snd i)))"
  by (auto simp: check_def filter_empty_conv)

lemma validationResult_Nil:
  "(validationResult isEmail req params = []) =
   ((\<forall>i\<in>set (selectFields req params ''Username'').
       5 \<le> length (toString (snd i)) \<and> isAlphanumeric (toString (snd i))) \<and>
    (\<forall>i\<in>set (selectFields req params ''Password''). toString (snd i) \<noteq> []) \<and>
    (\<forall>i\<in>set (selectFields req params ''Email''). isEmail (toString (snd i))))"
  by (auto simp: validationResult_def check_Nil)

lemma selectFields_Body:
  "body req field = Some v \<Longrightarrow> (Body, Some v) \<in> set (selectFields req params field)"
  by (simp add: selectFields_def fieldValue_def Let_def)

lemma selectFields_Params:
  "params field = Some v \<Longrightarrow> (Params, Some v) \<in> set (selectFields req params field)"
  by (simp add: selectFields_def fieldValue_def Let_def)

text \<open>The favourites handlers on a well-formed identifier and a user that is found.\<close>

lemma post_users_movies_found:
  assumes "castObjectId pMovieID = Some oid" and "findOne (Some pUsername) (Users s) = Some u"
  shows "post_users_movies True pUsername pMovieID s =
    (s\<lparr>Users := fst (findOneAndUpdate pUsername
          (\<lambda>u. u\<lparr>FavoriteMovies := addToSet oid (FavoriteMovies u)\<rparr>) (Users s))\<rparr>,
     Response 201 (Text (''Movie ID '' @ pMovieID @
       '' was added to favorite movies for user '' @ pUsername)))"
proof -
  have "snd (findOneAndUpdate pUsername
          (\<lambda>u. u\<lparr>FavoriteMovies := addToSet oid (FavoriteMovies u)\<rparr>) (Users s)) \<noteq> None"
    using findOneAndUpdate_Some [OF assms(2)] by simp
  with assms(1) show ?thesis
    by (auto simp: post_users_movies_def passport_authenticate_def findById_def
        split: prod.splits option.splits)
qed

lemma delete_users_movies_found:
  assumes "castObjectId pMovieID = Some oid" and "findOne (Some pUsername) (Users s) = Some u"
  shows "delete_users_movies True pUsername pMovieID s =
    (s\<lparr>Users := fst (findOneAndUpdate pUsername
          (\<lambda>u. u\<lparr>FavoriteMovies := pull oid (FavoriteMovies u)\<rparr>) (Users s))\<rparr>,
     Response 200 (Text (''Movie ID '' @ pMovieID @ '' was deleted from user '' @ pUsername)))"
proof -
  have "snd (findOneAndUpdate pUsername
          (\<lambda>u. u\<lparr>FavoriteMovies := pull oid (FavoriteMovies u)\<rparr>) (Users s)) \<noteq> None"
    using findOneAndUpdate_Some [OF assms(2)] by simp
  with assms(1) show ?thesis
    by (auto simp: delete_users_movies_def passport_authenticate_def findById_def
        split: prod.splits option.splits)
qed

lemma findOneAndUpdate_distinct_favorites:
  assumes "\<forall>v\<in>set us. distinct (FavoriteMovies v)"
    and "\<And>u. distinct (FavoriteMovies u) \<Longrightarrow> distinct (FavoriteMovies (upd u))"
  shows "\<forall>v\<in>set (fst (findOneAndUpdate name upd us)). distinct (FavoriteMovies v)"
  using assms(1)
proof (induction us)
  case Nil
  then show ?case by simp
next
  case (Cons a us)
  then show ?case using assms(2) by (simp split: prod.splits)
qed

lemma post_users_movies_distinct_favorites:
  assumes "\<forall>v\<in>set (Users t). distinct (FavoriteMovies v)"
  shows "\<forall>v\<in>set (Users (fst (post_users_movies ok name ident t))).
           distinct (FavoriteMovies v)"
proof (cases "ok \<and> castObjectId ident \<noteq> None")
  case False
  with assms show ?thesis
    by (auto simp: post_users_movies_def passport_authenticate_def findById_def
        split: option.splits)
next
  case True
  then obtain x where x: "castObjectId ident = Some x" by auto
  let ?upd = "\<lambda>u. u\<lparr>FavoriteMovies := addToSet x (FavoriteMovies u)\<rparr>"
  have upd: "\<forall>v\<in>set (fst (findOneAndUpdate name ?upd (Users t))). distinct (FavoriteMovies v)"
    using assms by (rule findOneAndUpdate_distinct_favorites) (simp add: distinct_addToSet)
  show ?thesis
  proof (cases "findOne (Some name) (Users t)")
    case None
    from findOneAndUpdate_None [OF None] x True assms show ?thesis
      by (simp add: post_users_movies_def passport_authenticate_def findById_def)
  next
    case (Some u)
    from post_users_movies_found [OF x Some] True upd show ?thesis by simp
  qed
qed

section \<open>Favourites\<close>

text \<open>
  C1. The claim: when no movie with the identifier exists, adding it to the favourites fails
  with 404 and the favourites stay as they were. The handler does not look at what
  \<^verbatim>\<open>findById\<close> resolved with, so this holds only for a parameter that is no ObjectId.
  Here the catalogue is empty, the lookup resolves with \<^verbatim>\<open>null\<close>, and the request is
  answered with 201, the identifier added to the favourites of \<^verbatim>\<open>alice01\<close>.
\<close>

theorem addFavorite_unknown_movie_is_added:
  "findById ''5c3bd189515a081b363cb7e4'' (Movies aliceOnly) = Inr None \<and>
   favoritesOf ''alice01'' aliceOnly = Some [] \<and>
   post_users_movies True ''alice01'' ''5c3bd189515a081b363cb7e4'' aliceOnly =
     (aliceOnly\<lparr>Users := [alice\<lparr>FavoriteMovies := [ObjectId ''5c3bd189515a081b363cb7e4'']\<rparr>]\<rparr>,
      Response 201 (Text
        ''Movie ID 5c3bd189515a081b363cb7e4 was added to favorite movies for user alice01''))"
  by (simp add: post_users_movies_def passport_authenticate_def findById_def cast_defs
      favoritesOf_def findOne_def addToSet_def sample_defs)

text \<open>
  C3. Adding an identifier that is already among the user's favourites is answered with 201
  and leaves the store as it was; and whatever the request, favourites without duplicates
  stay without duplicates. The identifier is what the path parameter is cast to.
\<close>

theorem addFavorite_idempotent:
  assumes "jwtOk"
    and "castObjectId pMovieID = Some oid"
    and "findOne (Some pUsername) (Users s) = Some u"
    and "oid \<in> set (FavoriteMovies u)"
  shows "post_users_movies jwtOk pUsername pMovieID s =
           (s, Response 201 (Text (''Movie ID '' @ pMovieID @
                 '' was added to favorite movies for user '' @ pUsername)))
         \<and> ((\<forall>v\<in>set (Users t). distinct (FavoriteMovies v)) \<longrightarrow>
            (\<forall>v\<in>set (Users (fst (post_users_movies ok name ident t))).
               distinct (FavoriteMovies v)))"
proof
  let ?upd = "\<lambda>u. u\<lparr>FavoriteMovies := addToSet oid (FavoriteMovies u)\<rparr>"
  from assms(4) have "?upd u = u" by (simp add: addToSet_def)
  with assms(3) have "findOneAndUpdate pUsername ?upd (Users s) = (Users s, Some u)"
    by (rule findOneAndUpdate_same)
  with assms(1) post_users_movies_found [OF assms(2) assms(3)]
  show "post_users_movies jwtOk pUsername pMovieID s =
           (s, Response 201 (Text (''Movie ID '' @ pMovieID @
                 '' was added to favorite movies for user '' @ pUsername)))"
    by simp
next
  show "(\<forall>v\<in>set (Users t). distinct (FavoriteMovies v)) \<longrightarrow>
        (\<forall>v\<in>set (Users (fst (post_users_movies ok name ident t))).
           distinct (FavoriteMovies v))"
    by (simp add: post_users_movies_distinct_favorites)
qed

theorem addFavorite_idempotent_witness:
  "castObjectId ''5c3bd189515a081b363cb7e4'' = Some (ObjectId ''5c3bd189515a081b363cb7e4'') \<and>
   favoritesOf ''alice01'' aliceFan = Some [ObjectId ''5c3bd189515a081b363cb7e4''] \<and>
   post_users_movies True ''alice01'' ''5c3bd189515a081b363cb7e4'' aliceFan =
     (aliceFan, Response 201 (Text
        ''Movie ID 5c3bd189515a081b363cb7e4 was added to favorite movies for user alice01'')) \<and>
   list_all (\<lambda>v. distinct (FavoriteMovies v))
     (Users (fst (post_users_movies True ''alice01'' ''5c3bd189515a081b363cb7e4'' aliceOnly)))"
proof -
  have c: "castObjectId ''5c3bd189515a081b363cb7e4'' = Some (ObjectId ''5c3bd189515a081b363cb7e4'')"
    by (simp add: cast_defs)
  have f: "findOne (Some ''alice01'') (Users aliceFan) =
             Some (alice\<lparr>FavoriteMovies := [ObjectId ''5c3bd189515a081b363cb7e4'']\<rparr>)"
    by (simp add: findOne_def sample_defs)
  have m: "ObjectId ''5c3bd189515a081b363cb7e4'' \<in>
             set (FavoriteMovies (alice\<lparr>FavoriteMovies := [ObjectId ''5c3bd189515a081b363cb7e4'']\<rparr>))"
    by simp
  have d: "\<forall>v\<in>set (Users aliceOnly). distinct (FavoriteMovies v)"
    by (simp add: sample_defs)
  from addFavorite_idempotent [OF TrueI c f m, of aliceOnly True "''alice01''"
      "''5c3bd189515a081b363cb7e4''"] c f d
  show ?thesis by (simp add: favoritesOf_def list_all_iff)
qed

text \<open>
  C4. For a user that exists and a well-formed identifier, of a movie of the catalogue or
  not: adding the identifier and then removing it is answered with 201 and 200 and leaves
  the user's favourites without it; and removing an identifier that is not among the
  favourites is answered with 200 and leaves the store as it was.
\<close>

theorem addFavorite_then_removeFavorite:
  assumes "jwtOk"
    and "castObjectId pMovieID = Some oid"
    and "findOne (Some pUsername) (Users s) = Some u"
  shows "status (snd (post_users_movies jwtOk pUsername pMovieID s)) = 201 \<and>
         status (snd (delete_users_movies jwtOk pUsername pMovieID
                        (fst (post_users_movies jwtOk pUsername pMovieID s)))) = 200 \<and>
         favoritesOf pUsername
           (fst (delete_users_movies jwtOk pUsername pMovieID
                   (fst (post_users_movies jwtOk pUsername pMovieID s))))
           = Some (pull oid (FavoriteMovies u)) \<and>
         oid \<notin> set (pull oid (FavoriteMovies u)) \<and>
         (oid \<notin> set (FavoriteMovies u) \<longrightarrow>
            delete_users_movies jwtOk pUsername pMovieID s =
              (s, Response 200 (Text (''Movie ID '' @ pMovieID @
                    '' was deleted from user '' @ pUsername))))"
proof -
  let ?add = "\<lambda>u. u\<lparr>FavoriteMovies := addToSet oid (FavoriteMovies u)\<rparr>"
  let ?del = "\<lambda>u. u\<lparr>FavoriteMovies := pull oid (FavoriteMovies u)\<rparr>"
  let ?s1 = "fst (post_users_movies jwtOk pUsername pMovieID s)"
  let ?s2 = "fst (delete_users_movies jwtOk pUsername pMovieID ?s1)"
  have name: "Username u = Some pUsername"
    using findOne_Some_name [OF assms(3)] by simp
  have p: "post_users_movies jwtOk pUsername pMovieID s =
      (s\<lparr>Users := fst (findOneAndUpdate pUsername ?add (Users s))\<rparr>,
       Response 201 (Text (''Movie ID '' @ pMovieID @
         '' was added to favorite movies for user '' @ pUsername)))"
    using assms(1) post_users_movies_found [OF assms(2) assms(3)] by simp
  have u1: "findOne (Some pUsername) (Users ?s1) = Some (?add u)"
    using p findOne_findOneAndUpdate [OF assms(3), of ?add] name by simp
  have d: "delete_users_movies jwtOk pUsername pMovieID ?s1 =
      (?s1\<lparr>Users := fst (findOneAndUpdate pUsername ?del (Users ?s1))\<rparr>,
       Response 200 (Text (''Movie ID '' @ pMovieID @ '' was deleted from user '' @ pUsername)))"
    using assms(1) delete_users_movies_found [OF assms(2) u1] by simp
  have u2: "findOne (Some pUsername) (Users ?s2) = Some (?del (?add u))"
    using d findOne_findOneAndUpdate [OF u1, of ?del] name by simp
  have favs: "favoritesOf pUsername ?s2 = Some (pull oid (FavoriteMovies u))"
    using u2 by (simp add: favoritesOf_def pull_addToSet)
  have noop: "oid \<notin> set (FavoriteMovies u) \<longrightarrow>
      delete_users_movies jwtOk pUsername pMovieID s =
        (s, Response 200 (Text (''Movie ID '' @ pMovieID @
              '' was deleted from user '' @ pUsername)))"
  proof
    assume "oid \<notin> set (FavoriteMovies u)"
    then have "?del u = u" by (simp add: pull_absent)
    with assms(3) have "findOneAndUpdate pUsername ?del (Users s) = (Users s, Some u)"
      by (rule findOneAndUpdate_same)
    with assms(1) delete_users_movies_found [OF assms(2) assms(3)]
    show "delete_users_movies jwtOk pUsername pMovieID s =
        (s, Response 200 (Text (''Movie ID '' @ pMovieID @
              '' was deleted from user '' @ pUsername)))"
      by simp
  qed
  from p d favs noop show ?thesis by (simp add: not_in_pull)
qed

theorem addFavorite_then_removeFavorite_witness:
  "castObjectId ''abcdefghijkl'' = Some (ObjectId ''6162636465666768696a6b6c'') \<and>
   findOne (Some ''alice01'') (Users aliceAndSilence) = Some alice \<and>
   favoritesOf ''alice01''
     (fst (post_users_movies True ''alice01'' ''abcdefghijkl'' aliceAndSilence))
     = Some [ObjectId ''6162636465666768696a6b6c''] \<and>
   favoritesOf ''alice01''
     (fst (delete_users_movies True ''alice01'' ''abcdefghijkl''
        (fst (post_users_movies True ''alice01'' ''abcdefghijkl'' aliceAndSilence))))
     = Some [] \<and>
   delete_users_movies True ''alice01'' ''abcdefghijkl'' aliceAndSilence =
     (aliceAndSilence,
      Response 200 (Text ''Movie ID abcdefghijkl was deleted from user alice01''))"
proof -
  have c: "castObjectId ''abcdefghijkl'' = Some (ObjectId ''6162636465666768696a6b6c'')"
    by (simp add: cast_defs)
  have f: "findOne (Some ''alice01'') (Users aliceAndSilence) = Some alice"
    by (simp add: findOne_def sample_defs)
  have a: "favoritesOf ''alice01''
     (fst (post_users_movies True ''alice01'' ''abcdefghijkl'' aliceAndSilence))
     = Some [ObjectId ''6162636465666768696a6b6c'']"
    by (simp add: post_users_movies_def passport_authenticate_def findById_def c
        favoritesOf_def findOne_def addToSet_def sample_defs)
  have e: "FavoriteMovies alice = []" by (simp add: alice_def)
  from addFavorite_then_removeFavorite [OF TrueI c f] c f a e
  show ?thesis by (simp add: pull_def)
qed

section \<open>Registration\<close>

text \<open>
  C5. Registration is answered with 422 exactly when one of the values the checks select
  fails: a username shorter than 5 characters or with a character that is no letter or
  digit, an empty password, or an email not accepted by \<^verbatim>\<open>isEmail\<close>; a field that is
  nowhere in the request counts as empty. A request answered with 422 leaves the store as
  it was. In particular a username, password or email of the body that fails its check
  gives 422.
\<close>

theorem registration_validation:
  "(status (snd (post_users isEmail hashPassword req s)) = 422) =
     ((\<exists>i\<in>set (selectFields req Map.empty ''Username'').
          length (toString (snd i)) < 5 \<or> (\<exists>c\<in>set (toString (snd i)). \<not> isAlnumChar c)) \<or>
      (\<exists>i\<in>set (selectFields req Map.empty ''Password''). toString (snd i) = []) \<or>
      (\<exists>i\<in>set (selectFields req Map.empty ''Email''). \<not> isEmail (toString (snd i))))
   \<and> (status (snd (post_users isEmail hashPassword req s)) = 422 \<longrightarrow>
        fst (post_users isEmail hashPassword req s) = s)
   \<and> (\<forall>v. body req ''Username'' = Some v \<and>
            (length v < 5 \<or> (\<exists>c\<in>set v. \<not> isAlnumChar c)) \<longrightarrow>
          status (snd (post_users isEmail hashPassword req s)) = 422)
   \<and> (body req ''Password'' = Some [] \<longrightarrow>
        status (snd (post_users isEmail hashPassword req s)) = 422)
   \<and> (\<forall>v. body req ''Email'' = Some v \<and> \<not> isEmail v \<longrightarrow>
          status (snd (post_users isEmail hashPassword req s)) = 422)"
proof -
  let ?fails = "(\<exists>i\<in>set (selectFields req Map.empty ''Username'').
          length (toString (snd i)) < 5 \<or> (\<exists>c\<in>set (toString (snd i)). \<not> isAlnumChar c)) \<or>
      (\<exists>i\<in>set (selectFields req Map.empty ''Password''). toString (snd i) = []) \<or>
      (\<exists>i\<in>set (selectFields req Map.empty ''Email''). \<not> isEmail (toString (snd i)))"
  have alnum: "\<And>x. (5 \<le> length x \<and> isAlphanumeric x) =
                  (\<not> (length x < 5 \<or> (\<exists>c\<in>set x. \<not> isAlnumChar c)))"
    by (auto simp: isAlphanumeric_def list_all_iff)
  have v: "(validationResult isEmail req Map.empty \<noteq> []) = ?fails"
    unfolding validationResult_Nil alnum by blast
  have st: "(status (snd (post_users isEmail hashPassword req s)) = 422) =
     (validationResult isEmail req Map.empty \<noteq> [])"
    by (simp add: post_users_def Let_def split: option.splits)
  have fr: "validationResult isEmail req Map.empty \<noteq> [] \<longrightarrow>
     fst (post_users isEmail hashPassword req s) = s"
    by (simp add: post_users_def Let_def)
  have bu: "\<forall>v. body req ''Username'' = Some v \<and>
            (length v < 5 \<or> (\<exists>c\<in>set v. \<not> isAlnumChar c)) \<longrightarrow> ?fails"
    using selectFields_Body [of req "''Username''" _ Map.empty]
    by (force simp: toString_def)
  have bp: "body req ''Password'' = Some [] \<longrightarrow> ?fails"
    using selectFields_Body [of req "''Password''" "[]" Map.empty]
    by (force simp: toString_def)
  have be: "\<forall>v. body req ''Email'' = Some v \<and> \<not> isEmail v \<longrightarrow> ?fails"
    using selectFields_Body [of req "''Email''" _ Map.empty]
    by (force simp: toString_def)
  from v st fr bu bp be show ?thesis by simp
qed

theorem registration_validation_witness:
  "status (snd (post_users sampleIsEmail sampleHash (withUsername ''abc'') aliceOnly)) = 422 \<and>
   status (snd (post_users sampleIsEmail sampleHash (withUsername ''alice!01'') aliceOnly)) = 422 \<and>
   fst (post_users sampleIsEmail sampleHash (withUsername ''alice!01'') aliceOnly) = aliceOnly \<and>
   status (snd (post_users sampleIsEmail sampleHash
     (jsonBody [''Username'' \<mapsto> ''bobby02'', ''Password'' \<mapsto> [], ''Email'' \<mapsto> ''bob@b.com''])
     aliceOnly)) = 422 \<and>
   status (snd (post_users sampleIsEmail sampleHash
     (jsonBody [''Username'' \<mapsto> ''bobby02'', ''Password'' \<mapsto> ''secret'', ''Email'' \<mapsto> ''bob''])
     aliceOnly)) = 422 \<and>
   status (snd (post_users sampleIsEmail sampleHash
     (bobReq\<lparr>query := [''Username'' \<mapsto> ''ab'']\<rparr>) aliceOnly)) = 422 \<and>
   status (snd (post_users sampleIsEmail sampleHash bobReq aliceOnly)) \<noteq> 422"
proof -
  have short: "body (withUsername ''abc'') ''Username'' = Some ''abc'' \<and>
      (length ''abc'' < 5 \<or> (\<exists>c\<in>set ''abc''. \<not> isAlnumChar c))"
    by (simp add: sample_defs)
  have bang: "body (withUsername ''alice!01'') ''Username'' = Some ''alice!01'' \<and>
      (length ''alice!01'' < 5 \<or> (\<exists>c\<in>set ''alice!01''. \<not> isAlnumChar c))"
    by (simp add: sample_defs isAlnumChar_def)
  have pw: "body (jsonBody [''Username'' \<mapsto> ''bobby02'', ''Password'' \<mapsto> [],
      ''Email'' \<mapsto> ''bob@b.com'']) ''Password'' = Some []"
    by (simp add: sample_defs)
  have em: "body (jsonBody [''Username'' \<mapsto> ''bobby02'', ''Password'' \<mapsto> ''secret'',
      ''Email'' \<mapsto> ''bob'']) ''Email'' = Some ''bob'' \<and> \<not> sampleIsEmail ''bob''"
    by (simp add: sample_defs)
  have q: "selectFields (bobReq\<lparr>query := [''Username'' \<mapsto> ''ab'']\<rparr>) Map.empty ''Username''
      = [(Body, Some ''bobby02''), (Query, Some ''ab'')]"
    by (simp add: sample_defs selectFields_def fieldValue_def)
  have sel: "selectFields bobReq Map.empty ''Username'' = [(Body, Some ''bobby02'')]"
    "selectFields bobReq Map.empty ''Password'' = [(Body, Some ''secret'')]"
    "selectFields bobReq Map.empty ''Email'' = [(Body, Some ''bob@b.com'')]"
    by (simp_all add: sample_defs selectFields_def fieldValue_def)
  have w1: "status (snd (post_users sampleIsEmail sampleHash (withUsername ''abc'') aliceOnly)) = 422"
    using registration_validation [of sampleIsEmail sampleHash "withUsername ''abc''" aliceOnly]
      short by simp
  have w2: "status (snd (post_users sampleIsEmail sampleHash (withUsername ''alice!01'')
      aliceOnly)) = 422"
    using registration_validation [of sampleIsEmail sampleHash "withUsername ''alice!01''"
        aliceOnly] bang by simp
  have w3: "fst (post_users sampleIsEmail sampleHash (withUsername ''alice!01'') aliceOnly)
      = aliceOnly"
    using registration_validation [of sampleIsEmail sampleHash "withUsername ''alice!01''"
        aliceOnly] w2 by simp
  have w4: "status (snd (post_users sampleIsEmail sampleHash
     (jsonBody [''Username'' \<mapsto> ''bobby02'', ''Password'' \<mapsto> [], ''Email'' \<mapsto> ''bob@b.com''])
     aliceOnly)) = 422"
    using registration_validation [of sampleIsEmail sampleHash
      "jsonBody [''Username'' \<mapsto> ''bobby02'', ''Password'' \<mapsto> [], ''Email'' \<mapsto> ''bob@b.com'']"
      aliceOnly] pw by simp
  have w5: "status (snd (post_users sampleIsEmail sampleHash
     (jsonBody [''Username'' \<mapsto> ''bobby02'', ''Password'' \<mapsto> ''secret'', ''Email'' \<mapsto> ''bob''])
     aliceOnly)) = 422"
    using registration_validation [of sampleIsEmail sampleHash
      "jsonBody [''Username'' \<mapsto> ''bobby02'', ''Password'' \<mapsto> ''secret'', ''Email'' \<mapsto> ''bob'']"
      aliceOnly] em by simp
  have w6: "status (snd (post_users sampleIsEmail sampleHash
     (bobReq\<lparr>query := [''Username'' \<mapsto> ''ab'']\<rparr>) aliceOnly)) = 422"
    using registration_validation [of sampleIsEmail sampleHash
      "bobReq\<lparr>query := [''Username'' \<mapsto> ''ab'']\<rparr>" aliceOnly]
    by (simp add: q toString_def)
  have w7: "status (snd (post_users sampleIsEmail sampleHash bobReq aliceOnly)) \<noteq> 422"
    using registration_validation [of sampleIsEmail sampleHash bobReq aliceOnly]
    by (simp add: sel toString_def isAlnumChar_def sampleIsEmail_def)
  from w1 w2 w3 w4 w5 w6 w7 show ?thesis by simp
qed

text \<open>
  C6. The claim: every registration with the username of a registered user is answered with
  409. The field checks come first: with no password the request for \<^verbatim>\<open>alice01\<close>, who is
  registered, is answered with 422.
\<close>

theorem registration_duplicate_invalid_counterexample:
  "findOne (Some ''alice01'') (Users aliceOnly) = Some alice \<and>
   post_users sampleIsEmail sampleHash
     (jsonBody [''Username'' \<mapsto> ''alice01'', ''Email'' \<mapsto> ''a@b.com'']) aliceOnly =
   (aliceOnly,
    Response 422 (ValidationErrors [(None, ''Password is required'', ''Password'', Body)]))"
  by (simp add: post_users_def findOne_def validation_defs sample_defs)

text \<open>
  C6, as amended. A registration with the username of a registered user leaves the store as
  it was; it is answered with 409 when it passes the field checks and
  \<^verbatim>\<open>Users.hashPassword\<close> returns a digest, and with 422 when it does not pass the checks.
  Whatever the request, usernames that are unique stay unique.
\<close>

theorem registration_duplicate_username:
  assumes "findOne (body req ''Username'') (Users s) = Some u"
  shows "fst (post_users isEmail hashPassword req s) = s \<and>
         (validationResult isEmail req Map.empty = [] \<and>
          hashPassword (body req ''Password'') \<noteq> None \<longrightarrow>
            snd (post_users isEmail hashPassword req s) =
              Response 409 (Text (jsString (body req ''Username'') @ '' already exists''))) \<and>
         (validationResult isEmail req Map.empty \<noteq> [] \<longrightarrow>
            status (snd (post_users isEmail hashPassword req s)) = 422) \<and>
         (distinct (map Username (Users t)) \<longrightarrow>
            distinct (map Username (Users (fst (post_users isEmail' hashPassword' req' t)))))"
proof -
  have dup: "fst (post_users isEmail hashPassword req s) = s \<and>
         (validationResult isEmail req Map.empty = [] \<and>
          hashPassword (body req ''Password'') \<noteq> None \<longrightarrow>
            snd (post_users isEmail hashPassword req s) =
              Response 409 (Text (jsString (body req ''Username'') @ '' already exists''))) \<and>
         (validationResult isEmail req Map.empty \<noteq> [] \<longrightarrow>
            status (snd (post_users isEmail hashPassword req s)) = 422)"
    using assms by (auto simp: post_users_def Let_def split: option.splits)
  have inv: "distinct (map Username (Users t)) \<longrightarrow>
            distinct (map Username (Users (fst (post_users isEmail' hashPassword' req' t))))"
  proof (cases "findOne (body req' ''Username'') (Users t)")
    case None
    then have "body req' ''Username'' \<notin> Username ` set (Users t)"
      by (auto simp: findOne_None_iff)
    with None show ?thesis
      by (simp add: post_users_def Let_def create_def split: option.splits)
  next
    case (Some a)
    then show ?thesis by (simp add: post_users_def Let_def split: option.splits)
  qed
  from dup inv show ?thesis by simp
qed

theorem registration_duplicate_username_witness:
  "findOne (body aliceReq ''Username'') (Users aliceOnly) = Some alice \<and>
   validationResult sampleIsEmail aliceReq Map.empty = [] \<and>
   sampleHash (body aliceReq ''Password'') = Some ''$2b$10$wp'' \<and>
   post_users sampleIsEmail sampleHash aliceReq aliceOnly =
     (aliceOnly, Response 409 (Text ''alice01 already exists'')) \<and>
   distinct (map Username (Users aliceOnly)) \<and>
   distinct (map Username (Users (fst (post_users sampleIsEmail sampleHash bobReq aliceOnly))))"
proof -
  have f: "findOne (body aliceReq ''Username'') (Users aliceOnly) = Some alice"
    by (simp add: findOne_def sample_defs)
  have v: "validationResult sampleIsEmail aliceReq Map.empty = []"
    by (simp add: validation_defs sample_defs)
  have h: "sampleHash (body aliceReq ''Password'') = Some ''$2b$10$wp''"
    by (simp add: sample_defs)
  have d: "distinct (map Username (Users aliceOnly))"
    by (simp add: sample_defs)
  have n: "jsString (body aliceReq ''Username'') = ''alice01''"
    by (simp add: sample_defs jsString_def)
  from registration_duplicate_username [OF f, of sampleIsEmail sampleHash aliceOnly
      sampleIsEmail sampleHash bobReq] f v h d n
  show ?thesis by (simp add: prod_eq_iff)
qed

text \<open>
  C7. A registration answered with 201 has added one document at the end of the
  collection, the same that is sent back; its password is what \<^verbatim>\<open>Users.hashPassword\<close>
  made of the password of the body, and so differs from the submitted one wherever the
  hasher's digest does.
\<close>

theorem registration_stores_digest:
  assumes "status (snd (post_users isEmail hashPassword req s)) = 201"
  shows "\<exists>doc. fst (post_users isEmail hashPassword req s) = s\<lparr>Users := Users s @ [doc]\<rparr> \<and>
           payload (snd (post_users isEmail hashPassword req s)) = UserDoc doc \<and>
           Username doc = body req ''Username'' \<and>
           hashPassword (body req ''Password'') = Some (Password doc) \<and>
           (\<forall>p. body req ''Password'' = Some p \<and> hashPassword (Some p) \<noteq> Some p \<longrightarrow>
                Password doc \<noteq> p)"
  using assms
  by (auto simp: post_users_def Let_def create_def split: if_splits option.splits)

theorem registration_stores_digest_witness:
  "status (snd (post_users sampleIsEmail sampleHash bobReq aliceOnly)) = 201 \<and>
   (\<exists>doc. Users (fst (post_users sampleIsEmail sampleHash bobReq aliceOnly)) =
            Users aliceOnly @ [doc] \<and>
          payload (snd (post_users sampleIsEmail sampleHash bobReq aliceOnly)) = UserDoc doc \<and>
          Password doc = ''$2b$10$terces'' \<and> Password doc \<noteq> ''secret'')"
proof -
  have st: "status (snd (post_users sampleIsEmail sampleHash bobReq aliceOnly)) = 201"
    by (simp add: post_users_def Let_def findOne_def validation_defs sample_defs)
  have h: "sampleHash (body bobReq ''Password'') = Some ''$2b$10$terces''"
    by (simp add: sample_defs)
  from registration_stores_digest [OF st] obtain doc where
    "fst (post_users sampleIsEmail sampleHash bobReq aliceOnly) =
       aliceOnly\<lparr>Users := Users aliceOnly @ [doc]\<rparr>"
    "payload (snd (post_users sampleIsEmail sampleHash bobReq aliceOnly)) = UserDoc doc"
    "sampleHash (body bobReq ''Password'') = Some (Password doc)"
    by blast
  with h have "Users (fst (post_users sampleIsEmail sampleHash bobReq aliceOnly)) =
            Users aliceOnly @ [doc] \<and>
          payload (snd (post_users sampleIsEmail sampleHash bobReq aliceOnly)) = UserDoc doc \<and>
          Password doc = ''$2b$10$terces'' \<and> Password doc \<noteq> ''secret''"
    by simp
  with st show ?thesis by blast
qed

section \<open>Profile update\<close>

text \<open>
  C2. The claim: an update that passes the field checks is answered with 409 only when the
  new username is that of a different user. The handler looks up the new username and
  answers 409 for any user it finds: here \<^verbatim>\<open>alice01\<close>, the only user, keeps her username
  and changes her password.
\<close>

theorem update_keeping_username_counterexample:
  "validationResult sampleIsEmail aliceNewPassword [''Username'' \<mapsto> ''alice01''] = [] \<and>
   body aliceNewPassword ''Username'' = Some ''alice01'' \<and>
   map Username (Users aliceOnly) = [Some ''alice01''] \<and>
   put_users True sampleIsEmail sampleHash ''alice01'' aliceNewPassword aliceOnly =
   (aliceOnly, Response 409 (Text ''alice01 already exists''))"
  by (simp add: put_users_def passport_authenticate_def findOne_def jsString_def
      validation_defs sample_defs)

text \<open>
  C2, as amended. An authenticated update that passes the field checks, and whose password
  \<^verbatim>\<open>Users.hashPassword\<close> digests, is answered with 409 if and only if some user of the
  collection has the username of the request body, the user that is being updated or
  another one; the store is then left as it was.
\<close>

theorem update_duplicate_username:
  assumes "jwtOk"
    and "validationResult isEmail req [''Username'' \<mapsto> pUsername] = []"
    and "hashPassword (body req ''Password'') = Some digest"
  shows "(status (snd (put_users jwtOk isEmail hashPassword pUsername req s)) = 409) =
           (\<exists>u\<in>set (Users s). Username u = body req ''Username'')
         \<and> ((\<exists>u\<in>set (Users s). Username u = body req ''Username'') \<longrightarrow>
              put_users jwtOk isEmail hashPassword pUsername req s =
                (s, Response 409 (Text (jsString (body req ''Username'') @ '' already exists''))))"
proof (cases "findOne (body req ''Username'') (Users s)")
  case None
  then have no: "\<not> (\<exists>u\<in>set (Users s). Username u = body req ''Username'')"
    by (simp add: findOne_None_iff)
  from None assms
  have "status (snd (put_users jwtOk isEmail hashPassword pUsername req s)) \<noteq> 409"
    by (simp add: put_users_def passport_authenticate_def Let_def
        split: prod.splits option.splits)
  with no show ?thesis by simp
next
  case (Some u)
  then have "\<exists>u\<in>set (Users s). Username u = body req ''Username''"
    using findOne_Some_name by blast
  moreover from Some assms have "put_users jwtOk isEmail hashPassword pUsername req s =
      (s, Response 409 (Text (jsString (body req ''Username'') @ '' already exists'')))"
    by (simp add: put_users_def passport_authenticate_def Let_def)
  ultimately show ?thesis by simp
qed

theorem update_duplicate_username_witness:
  "validationResult sampleIsEmail aliceReq [''Username'' \<mapsto> ''alice01''] = [] \<and>
   sampleHash (body aliceReq ''Password'') = Some ''$2b$10$wp'' \<and>
   status (snd (put_users True sampleIsEmail sampleHash ''alice01'' aliceReq aliceOnly)) = 409 \<and>
   validationResult sampleIsEmail bobReq [''Username'' \<mapsto> ''alice01''] = [] \<and>
   sampleHash (body bobReq ''Password'') = Some ''$2b$10$terces'' \<and>
   status (snd (put_users True sampleIsEmail sampleHash ''alice01'' bobReq aliceOnly)) \<noteq> 409"
proof -
  have va: "validationResult sampleIsEmail aliceReq [''Username'' \<mapsto> ''alice01''] = []"
    and vb: "validationResult sampleIsEmail bobReq [''Username'' \<mapsto> ''alice01''] = []"
    by (simp_all add: validation_defs sample_defs)
  have ha: "sampleHash (body aliceReq ''Password'') = Some ''$2b$10$wp''"
    and hb: "sampleHash (body bobReq ''Password'') = Some ''$2b$10$terces''"
    by (simp_all add: sample_defs)
  have a: "\<exists>u\<in>set (Users aliceOnly). Username u = body aliceReq ''Username''"
    and b: "\<not> (\<exists>u\<in>set (Users aliceOnly). Username u = body bobReq ''Username'')"
    by (simp_all add: sample_defs)
  have wa: "status (snd (put_users True sampleIsEmail sampleHash ''alice01'' aliceReq
      aliceOnly)) = 409"
    using update_duplicate_username [where hashPassword = sampleHash and s = aliceOnly,
        OF TrueI va ha] a by simp
  have wb: "status (snd (put_users True sampleIsEmail sampleHash ''alice01'' bobReq
      aliceOnly)) \<noteq> 409"
    using update_duplicate_username [where hashPassword = sampleHash and s = aliceOnly,
        OF TrueI vb hb] b by simp
  from va vb ha hb wa wb show ?thesis by simp
qed

text \<open>
  C10. An update answered with 200 has changed one document of the collection, the first
  with the username of the path: its \<^verbatim>\<open>Username\<close>, \<^verbatim>\<open>Password\<close>, \<^verbatim>\<open>Email\<close> and
  \<^verbatim>\<open>Birthday\<close> are set from the request body, the password to its digest, its
  \<^verbatim>\<open>FavoriteMovies\<close> are as before, and the new document is sent back.
\<close>

theorem update_sets_four_fields:
  assumes "status (snd (put_users jwtOk isEmail hashPassword pUsername req s)) = 200"
  shows "\<exists>us1 u us2 digest.
           Users s = us1 @ u # us2 \<and> (\<forall>v\<in>set us1. Username v \<noteq> Some pUsername) \<and>
           Username u = Some pUsername \<and>
           hashPassword (body req ''Password'') = Some digest \<and>
           fst (put_users jwtOk isEmail hashPassword pUsername req s) =
             s\<lparr>Users := us1 @
                  u\<lparr>Username := body req ''Username'', Password := digest,
                    Email := body req ''Email'', Birthday := body req ''Birthday''\<rparr> # us2\<rparr> \<and>
           payload (snd (put_users jwtOk isEmail hashPassword pUsername req s)) =
             UserDoc (u\<lparr>Username := body req ''Username'', Password := digest,
                        Email := body req ''Email'', Birthday := body req ''Birthday''\<rparr>) \<and>
           FavoriteMovies (u\<lparr>Username := body req ''Username'', Password := digest,
                             Email := body req ''Email'', Birthday := body req ''Birthday''\<rparr>)
             = FavoriteMovies u"
proof -
  from assms obtain digest where h: "hashPassword (body req ''Password'') = Some digest"
    by (auto simp: put_users_def passport_authenticate_def Let_def
        split: if_splits option.splits)
  let ?upd = "\<lambda>u. u\<lparr>Username := body req ''Username'', Password := digest,
                      Email := body req ''Email'', Birthday := body req ''Birthday''\<rparr>"
  from assms h obtain us' r where
    upd: "findOneAndUpdate pUsername ?upd (Users s) = (us', Some r)"
    and res: "put_users jwtOk isEmail hashPassword pUsername req s =
                (s\<lparr>Users := us'\<rparr>, Response 200 (UserDoc r))"
    by (auto simp: put_users_def passport_authenticate_def Let_def
        split: if_splits prod.splits option.splits)
  from findOneAndUpdate_split [OF upd] obtain us1 u us2 where
    "Users s = us1 @ u # us2" "\<forall>v\<in>set us1. Username v \<noteq> Some pUsername"
    "Username u = Some pUsername" "us' = us1 @ ?upd u # us2" "r = ?upd u"
    by blast
  with res h have "Users s = us1 @ u # us2 \<and> (\<forall>v\<in>set us1. Username v \<noteq> Some pUsername) \<and>
           Username u = Some pUsername \<and>
           hashPassword (body req ''Password'') = Some digest \<and>
           fst (put_users jwtOk isEmail hashPassword pUsername req s) =
             s\<lparr>Users := us1 @ ?upd u # us2\<rparr> \<and>
           payload (snd (put_users jwtOk isEmail hashPassword pUsername req s)) =
             UserDoc (?upd u) \<and>
           FavoriteMovies (?upd u) = FavoriteMovies u"
    by simp
  then show ?thesis by blast
qed

theorem update_sets_four_fields_witness:
  "status (snd (put_users True sampleIsEmail sampleHash ''alice01'' bobReq aliceFan)) = 200 \<and>
   (\<exists>us1 u us2.
      Users aliceFan = us1 @ u # us2 \<and> Username u = Some ''alice01'' \<and>
      Users (fst (put_users True sampleIsEmail sampleHash ''alice01'' bobReq aliceFan)) =
        us1 @ u\<lparr>Username := Some ''bobby02'', Password := ''$2b$10$terces'',
                 Email := Some ''bob@b.com'', Birthday := Some ''1990-01-01''\<rparr> # us2 \<and>
      FavoriteMovies (u\<lparr>Username := Some ''bobby02'', Password := ''$2b$10$terces'',
                 Email := Some ''bob@b.com'', Birthday := Some ''1990-01-01''\<rparr>)
        = FavoriteMovies u)"
proof -
  have st: "status (snd (put_users True sampleIsEmail sampleHash ''alice01'' bobReq aliceFan)) = 200"
    by (simp add: put_users_def passport_authenticate_def Let_def findOne_def
        validation_defs sample_defs)
  have b: "body bobReq ''Username'' = Some ''bobby02''"
    "sampleHash (body bobReq ''Password'') = Some ''$2b$10$terces''"
    "body bobReq ''Email'' = Some ''bob@b.com''" "body bobReq ''Birthday'' = Some ''1990-01-01''"
    by (simp_all add: sample_defs)
  from update_sets_four_fields [OF st] obtain us1 u us2 digest where
    "Users aliceFan = us1 @ u # us2" "Username u = Some ''alice01''"
    "sampleHash (body bobReq ''Password'') = Some digest"
    "fst (put_users True sampleIsEmail sampleHash ''alice01'' bobReq aliceFan) =
       aliceFan\<lparr>Users := us1 @
          u\<lparr>Username := body bobReq ''Username'', Password := digest,
            Email := body bobReq ''Email'', Birthday := body bobReq ''Birthday''\<rparr> # us2\<rparr>"
    by blast
  with b have "Users aliceFan = us1 @ u # us2 \<and> Username u = Some ''alice01'' \<and>
      Users (fst (put_users True sampleIsEmail sampleHash ''alice01'' bobReq aliceFan)) =
        us1 @ u\<lparr>Username := Some ''bobby02'', Password := ''$2b$10$terces'',
                 Email := Some ''bob@b.com'', Birthday := Some ''1990-01-01''\<rparr> # us2 \<and>
      FavoriteMovies (u\<lparr>Username := Some ''bobby02'', Password := ''$2b$10$terces'',
                 Email := Some ''bob@b.com'', Birthday := Some ''1990-01-01''\<rparr>)
        = FavoriteMovies u"
    by simp
  with st show ?thesis by blast
qed

section \<open>Listing the users\<close>

text \<open>
  C9. An authenticated \<^verbatim>\<open>GET /users\<close> is answered with 200 and the stored documents as
  they are, the \<^verbatim>\<open>Password\<close> of each, the stored digest, among their fields.
\<close>

theorem get_users_returns_stored_documents:
  assumes "jwtOk"
  shows "get_users jwtOk s = (s, Response 200 (UserDocs (Users s))) \<and>
         (\<exists>docs. payload (snd (get_users jwtOk s)) = UserDocs docs \<and>
                 map Password docs = map Password (Users s))"
  using assms by (simp add: get_users_def passport_authenticate_def)

theorem get_users_returns_stored_documents_witness:
  "get_users True aliceOnly = (aliceOnly, Response 200 (UserDocs [alice])) \<and>
   (\<exists>docs. payload (snd (get_users True aliceOnly)) = UserDocs docs \<and>
           map Password docs = [''$2b$10$wp''])"
  using get_users_returns_stored_documents [OF TrueI, of aliceOnly]
  by (simp add: sample_defs)

section \<open>Tokens\<close>

text \<open>
  C8. A token issued by the Login Service is accepted, with the user's name as identity, at
  every time before its expiry, and rejected with \<^verbatim>\<open>TokenExpired\<close> at every time from its
  expiry on; and a token of any origin is accepted if and only if its signature matches and
  the time is before its expiry.
\<close>

theorem token_valid_until_expiry:
  assumes "authenticate verify sign ttl issued us username plaintextPassword = Inr tok"
  shows "(now < issued + ttl \<longrightarrow> authorize sign now tok = Inr username) \<and>
         (issued + ttl \<le> now \<longrightarrow> authorize sign now tok = Inl TokenExpired) \<and>
         ((authorize sign now (Signed c sg) = Inr (subject c)) =
            (sg = sign c \<and> now < expiresAt c))"
proof -
  from assms have "tok = issueToken sign ttl issued username"
    by (auto simp: authenticate_def split: option.splits if_splits)
  then show ?thesis
    by (auto simp: issueToken_def authorize_def Let_def)
qed

theorem token_valid_until_expiry_witness:
  "authenticate sampleVerify sampleSign 3600 1000 [alice] ''alice01'' ''pw'' =
     Inr (Signed \<lparr>subject = ''alice01'', issuedAt = 1000, expiresAt = 4600\<rparr> ''hs256:alice01'') \<and>
   authorize sampleSign 4599
     (Signed \<lparr>subject = ''alice01'', issuedAt = 1000, expiresAt = 4600\<rparr> ''hs256:alice01'')
     = Inr ''alice01'' \<and>
   authorize sampleSign 4600
     (Signed \<lparr>subject = ''alice01'', issuedAt = 1000, expiresAt = 4600\<rparr> ''hs256:alice01'')
     = Inl TokenExpired"
proof -
  have a: "authenticate sampleVerify sampleSign 3600 1000 [alice] ''alice01'' ''pw'' =
     Inr (Signed \<lparr>subject = ''alice01'', issuedAt = 1000, expiresAt = 4600\<rparr> ''hs256:alice01'')"
    by (simp add: authenticate_def issueToken_def findOne_def sample_defs)
  from token_valid_until_expiry [OF a, of 4599] token_valid_until_expiry [OF a, of 4600] a
  show ?thesis by simp
qed

section \<open>More requests, evaluated\<close>

text \<open>
  The path parameter of \<^verbatim>\<open>PUT /users/:Username\<close> is validated with the body: a path
  name of three characters fails both username checks, whatever the body holds.
\<close>

lemma put_users_short_path_parameter:
  "put_users True sampleIsEmail sampleHash ''al!'' aliceReq aliceOnly =
     (aliceOnly, Response 422 (ValidationErrors
        [(Some ''al!'', ''Username must be at least 5 characters'', ''Username'', Params),
         (Some ''al!'', ''Username contains non alphanumeric characters - not allowed'',
          ''Username'', Params)]))"
  by (simp add: put_users_def passport_authenticate_def validation_defs sample_defs)

text \<open>
  A body without \<^verbatim>\<open>Username\<close> passes the checks on the strength of the path parameter;
  the lookup finds no document without a username, and the update writes \<^verbatim>\<open>null\<close>.
\<close>

lemma put_users_body_without_username:
  "put_users True sampleIsEmail sampleHash ''alice01'' noUsername aliceOnly =
     (aliceOnly\<lparr>Users := [alice\<lparr>Username := None, Password := ''$2b$10$wpwen''\<rparr>]\<rparr>,
      Response 200 (UserDoc (alice\<lparr>Username := None, Password := ''$2b$10$wpwen''\<rparr>)))"
  by (simp add: put_users_def passport_authenticate_def findOne_def validation_defs
      sample_defs)

text \<open>A username in the query string is validated too.\<close>

lemma post_users_query_username:
  "post_users sampleIsEmail sampleHash (bobReq\<lparr>query := [''Username'' \<mapsto> ''ab'']\<rparr>) aliceOnly =
     (aliceOnly, Response 422 (ValidationErrors
        [(Some ''ab'', ''Username must be at least 5 characters'', ''Username'', Query)]))"
  by (simp add: post_users_def validation_defs sample_defs)

text \<open>
  A password that is in a header only passes the check, but the handler hashes the password
  of the body; with a hasher that throws on \<^verbatim>\<open>undefined\<close> the answer is 500.
\<close>

lemma post_users_password_in_header:
  "post_users sampleIsEmail sampleHash
     \<lparr>body = [''Username'' \<mapsto> ''bobby02'', ''Email'' \<mapsto> ''bob@b.com''],
      headers = [''password'' \<mapsto> ''secret''], query = Map.empty\<rparr> aliceOnly =
     (aliceOnly, Response 500 (Text ''Internal Server Error''))"
  by (simp add: post_users_def validation_defs sample_defs)

text \<open>An identifier of 12 characters is cast, one of 14 is not.\<close>

lemma post_users_movies_twelve_characters:
  "post_users_movies True ''alice01'' ''abcdefghijkl'' aliceOnly =
     (aliceOnly\<lparr>Users := [alice\<lparr>FavoriteMovies := [ObjectId ''6162636465666768696a6b6c'']\<rparr>]\<rparr>,
      Response 201 (Text
        ''Movie ID abcdefghijkl was added to favorite movies for user alice01''))"
  by (simp add: post_users_movies_def passport_authenticate_def findById_def cast_defs
      addToSet_def sample_defs)

lemma post_users_movies_no_identifier:
  "post_users_movies True ''alice01'' ''nonexistent-id'' aliceOnly =
     (aliceOnly, Response 404 (Text ''Movie id nonexistent-id not found''))"
  by (simp add: post_users_movies_def passport_authenticate_def findById_def cast_defs)

end
